theory Spec2Isabelle
  imports Complex_Main "HOL-Library.Word" "HOL-Library.Sublist" "HOL-Library.AList"
    "HOL-Library.Log_Nat"
begin

section \<open>JavaScript strings\<close>

text \<open>
  A JavaScript string is a sequence of UTF-16 code units; \<open>length\<close>, \<open>includes\<close>,
  \<open>startsWith\<close> and the regular expressions of \<open>aiService.ts\<close> all work on code units.
  ASCII literals are written through \<open>js\<close>; the Japanese literals of the source are given
  by their code units.
\<close>

type_synonym char16 = "16 word"
type_synonym jsstring = "char16 list"

definition js :: "string \<Rightarrow> jsstring" where
  "js s = map of_char s"

text \<open>The class \<open>\s\<close> of ECMAScript: white space and line terminators.\<close>

definition isSpace :: "char16 \<Rightarrow> bool" where
  "isSpace c \<longleftrightarrow>
     c \<in> {0x0009, 0x000A, 0x000B, 0x000C, 0x000D, 0x0020, 0x00A0, 0x1680,
          0x2028, 0x2029, 0x202F, 0x205F, 0x3000, 0xFEFF}
     \<or> (0x2000 \<le> c \<and> c \<le> 0x200A)"

text \<open>Without the \<open>s\<close> flag, \<open>.\<close> matches every code unit but the line terminators.\<close>

definition isLineTerminator :: "char16 \<Rightarrow> bool" where
  "isLineTerminator c \<longleftrightarrow> c \<in> {0x000A, 0x000D, 0x2028, 0x2029}"

text \<open>\<open>s.replace(/\s/g, '')\<close>\<close>

definition stripSpace :: "jsstring \<Rightarrow> jsstring" where
  "stripSpace s = filter (\<lambda>c. \<not> isSpace c) s"

text \<open>\<open>s.startsWith(p)\<close> is \<^const>\<open>prefix\<close>; \<open>s.includes(t)\<close> searches every position.\<close>

fun includes_str :: "jsstring \<Rightarrow> jsstring \<Rightarrow> bool" where
  "includes_str [] t = (t = [])"
| "includes_str (x # xs) t = (prefix t (x # xs) \<or> includes_str xs t)"

text \<open>\<open>xs.join(sep)\<close>\<close>

fun join :: "jsstring \<Rightarrow> jsstring list \<Rightarrow> jsstring" where
  "join sep [] = []"
| "join sep [x] = x"
| "join sep (x # y # ys) = x @ sep @ join sep (y # ys)"

section \<open>Regular expressions\<close>

text \<open>
  The fragment of ECMAScript regular expressions that \<open>aiService.ts\<close> uses: literals,
  literals under the \<open>i\<close> flag, greedy and lazy stars of a character class, sequence,
  alternation, the greedy option \<open>(...)?\<close>, capture groups and the anchor \<open>$\<close> (without
  the \<open>m\<close> flag: end of input). The matcher is the backtracking one of the language: it
  lists the ways a pattern matches at the start of the input in the order in which
  backtracking tries them, so the head of the list is the match that \<open>exec\<close> reports.
\<close>

datatype cls =
    Space       \<comment> \<open>\<open>\s\<close>\<close>
  | AnyChar     \<comment> \<open>\<open>[\s\S]\<close>, and \<open>.\<close> under the \<open>s\<close> flag\<close>
  | Dot         \<comment> \<open>\<open>.\<close> without the \<open>s\<close> flag\<close>

fun in_cls :: "cls \<Rightarrow> char16 \<Rightarrow> bool" where
  "in_cls Space c = isSpace c"
| "in_cls AnyChar c = True"
| "in_cls Dot c = (\<not> isLineTerminator c)"

datatype rx =
    Lit jsstring
  | LitI jsstring      \<comment> \<open>an ASCII literal under the \<open>i\<close> flag\<close>
  | StarG cls          \<comment> \<open>\<open>c*\<close>\<close>
  | StarL cls          \<comment> \<open>\<open>c*?\<close>\<close>
  | Seq rx rx
  | Alt rx rx
  | Opt rx             \<comment> \<open>\<open>(r)?\<close>\<close>
  | Grp nat rx         \<comment> \<open>capture group number n\<close>
  | Eos                \<comment> \<open>\<open>$\<close>\<close>

text \<open>
  Canonicalisation under the \<open>i\<close> flag (no \<open>u\<close> flag), as far as it matters against an
  ASCII pattern: an ASCII letter is compared by its upper case, and a code unit from 128
  on never canonicalises to an ASCII one.
\<close>

definition canon :: "char16 \<Rightarrow> char16" where
  "canon c = (if 0x61 \<le> c \<and> c \<le> 0x7A then c - 0x20 else c)"

type_synonym captures = "(nat \<times> jsstring) list"

fun ms :: "rx \<Rightarrow> captures \<times> jsstring \<Rightarrow> (captures \<times> jsstring) list" where
  "ms (Lit l) (c, s) = (if prefix l s then [(c, drop (length l) s)] else [])"
| "ms (LitI l) (c, s) =
     (if length l \<le> length s \<and> map canon (take (length l) s) = map canon l
      then [(c, drop (length l) s)] else [])"
| "ms (StarG k) (c, []) = [(c, [])]"
| "ms (StarG k) (c, x # xs) =
     (if in_cls k x then ms (StarG k) (c, xs) else []) @ [(c, x # xs)]"
| "ms (StarL k) (c, []) = [(c, [])]"
| "ms (StarL k) (c, x # xs) =
     (c, x # xs) # (if in_cls k x then ms (StarL k) (c, xs) else [])"
| "ms (Seq a b) st = concat (map (ms b) (ms a st))"
| "ms (Alt a b) st = ms a st @ ms b st"
| "ms (Opt a) st = ms a st @ [st]"
| "ms (Grp n a) (c, s) =
     map (\<lambda>(c', s'). ((n, take (length s - length s') s) # c', s')) (ms a (c, s))"
| "ms Eos (c, s) = (if s = [] then [(c, s)] else [])"

text \<open>
  \<open>re.exec(s)\<close> for a pattern without the \<open>g\<close> flag, which is what \<open>s.match(re)\<close> and
  \<open>re.test(s)\<close> run: the leftmost position where the pattern matches, and there the first
  match in backtracking order. The result is element 0 of the match array (the matched
  substring) and the captures.
\<close>

fun exec :: "rx \<Rightarrow> jsstring \<Rightarrow> (jsstring \<times> captures) option" where
  "exec r [] =
     (case ms r ([], []) of [] \<Rightarrow> None | (c, rest) # _ \<Rightarrow> Some ([], c))"
| "exec r (x # xs) =
     (case ms r ([], x # xs) of
        [] \<Rightarrow> exec r xs
      | (c, rest) # _ \<Rightarrow> Some (take (length (x # xs) - length rest) (x # xs), c))"

definition test :: "rx \<Rightarrow> jsstring \<Rightarrow> bool" where
  "test r s \<longleftrightarrow> exec r s \<noteq> None"

text \<open>\<open>m[i]\<close> for a capture group: \<open>undefined\<close> when the group took no part.\<close>

definition group :: "captures \<Rightarrow> nat \<Rightarrow> jsstring option" where
  "group c n = map_of c n"

section \<open>Numbers\<close>

text \<open>
  A JavaScript number is an IEEE 754 double. A finite double is a rational, and an
  arithmetic operation returns the double nearest to the exact result, a tie going to
  the even significand: \<open>fl\<close> rounds a rational in this way (53 bits of precision, least
  exponent \<open>- 1074\<close>). Overflow to infinity is left out: the service multiplies by factors
  below one, divides by \<open>86400000\<close> and subtracts time values, which are bounded.
\<close>

definition floorLog2 :: "rat \<Rightarrow> int" where
  "floorLog2 x = (if 1 \<le> x then bitlen \<lfloor>x\<rfloor> - 1 else - bitlen (\<lceil>1 / x\<rceil> - 1))"

definition roundEven :: "rat \<Rightarrow> int" where
  "roundEven t =
     (if t - of_int \<lfloor>t\<rfloor> < 1 / 2 then \<lfloor>t\<rfloor>
      else if 1 / 2 < t - of_int \<lfloor>t\<rfloor> then \<lfloor>t\<rfloor> + 1
      else if even \<lfloor>t\<rfloor> then \<lfloor>t\<rfloor> else \<lfloor>t\<rfloor> + 1)"

definition fl :: "rat \<Rightarrow> rat" where
  "fl x =
     (if x = 0 then 0
      else (let e = max (floorLog2 \<bar>x\<bar> - 52) (- 1074)
            in sgn x * of_int (roundEven (\<bar>x\<bar> / 2 powi e)) * 2 powi e))"

text \<open>
  \<open>Math.round\<close> returns the integer nearest to its argument, a half going towards plus
  infinity, and \<open>Math.ceil\<close> the least integer not below it; both are exact.
\<close>

definition Math_round :: "rat \<Rightarrow> int" where
  "Math_round x = \<lfloor>x + 1 / 2\<rfloor>"

definition Math_ceil :: "rat \<Rightarrow> int" where
  "Math_ceil x = \<lceil>x\<rceil>"

section \<open>Dates\<close>

text \<open>
  \<open>new Date(s).getTime()\<close> belongs to the engine, and for most strings its result is
  implementation-defined; the runtime supplies it (see below). ECMAScript fixes it for
  the date-only ISO form \<open>YYYY-MM-DD\<close> of a calendar date, which is what the date inputs
  of the travel form produce: midnight UTC of that day, that is \<open>msPerDay\<close> times the day
  number \<open>MakeDay\<close>. \<open>dateOnlyTime\<close> is this prescribed value, and \<open>None\<close> where the string
  is not the date-only form of a calendar date.
\<close>

definition isLeapYear :: "int \<Rightarrow> bool" where
  "isLeapYear y \<longleftrightarrow> (y mod 4 = 0 \<and> y mod 100 \<noteq> 0) \<or> y mod 400 = 0"

definition daysInMonth :: "int \<Rightarrow> int \<Rightarrow> int" where
  "daysInMonth y m =
     (if m = 2 then (if isLeapYear y then 29 else 28)
      else if m \<in> {4, 6, 9, 11} then 30 else 31)"

definition DayFromYear :: "int \<Rightarrow> int" where
  "DayFromYear y =
     365 * (y - 1970) + (y - 1969) div 4 - (y - 1901) div 100 + (y - 1601) div 400"

definition daysBeforeMonth :: "int \<Rightarrow> int \<Rightarrow> int" where
  "daysBeforeMonth y m =
     [0, 31, 59, 90, 120, 151, 181, 212, 243, 273, 304, 334] ! nat (m - 1)
     + (if 2 < m \<and> isLeapYear y then 1 else 0)"

definition MakeDay :: "int \<Rightarrow> int \<Rightarrow> int \<Rightarrow> int" where
  "MakeDay y m d = DayFromYear y + daysBeforeMonth y m + d - 1"

definition msPerDay :: int where
  "msPerDay = 1000 * 60 * 60 * 24"

definition isDigit :: "char16 \<Rightarrow> bool" where
  "isDigit c \<longleftrightarrow> 0x30 \<le> c \<and> c \<le> 0x39"

fun digitsValue :: "int \<Rightarrow> jsstring \<Rightarrow> int" where
  "digitsValue acc [] = acc"
| "digitsValue acc (c # cs) = digitsValue (10 * acc + (uint c - 48)) cs"

definition validDate :: "int \<times> int \<times> int \<Rightarrow> bool" where
  "validDate ymd = (case ymd of (y, m, d) \<Rightarrow>
     0 \<le> y \<and> y \<le> 9999 \<and> 1 \<le> m \<and> m \<le> 12 \<and> 1 \<le> d \<and> d \<le> daysInMonth y m)"

definition parseIsoDate :: "jsstring \<Rightarrow> (int \<times> int \<times> int) option" where
  "parseIsoDate s =
     (if length s = 10 \<and> s ! 4 = 0x2D \<and> s ! 7 = 0x2D
         \<and> list_all isDigit (take 4 s) \<and> list_all isDigit (take 2 (drop 5 s))
         \<and> list_all isDigit (drop 8 s)
      then (let ymd = (digitsValue 0 (take 4 s), digitsValue 0 (take 2 (drop 5 s)),
                       digitsValue 0 (drop 8 s))
            in if validDate ymd then Some ymd else None)
      else None)"

definition dateOnlyTime :: "jsstring \<Rightarrow> int option" where
  "dateOnlyTime s = map_option (\<lambda>(y, m, d). msPerDay * MakeDay y m d) (parseIsoDate s)"

section \<open>Inputs of the service\<close>

record travelData =
  destination :: jsstring
  startDate :: jsstring
  endDate :: jsstring
  memberCount :: rat
  budget :: rat
  interests :: "jsstring list"
  travelStyle :: jsstring
  description :: jsstring

record recPrefs =
  r_destination :: jsstring
  r_region :: "jsstring option"
  r_interests :: "jsstring list"
  r_budget :: jsstring
  r_travelStyle :: jsstring
  r_groupSize :: rat
  r_duration :: rat
  r_customNote :: "jsstring option"

section \<open>Prompts\<close>

text \<open>
  A prompt is a fixed Japanese template with values spliced in (one of them through
  \<open>toLocaleString\<close>, which depends on the locale of the process). The model service
  is opaque, so the prompt is represented by the values that the template embeds; the
  fixed text is left out.
\<close>

definition tokuni_nashi :: jsstring where
  "tokuni_nashi = [0x7279, 0x306B, 0x306A, 0x3057]"

record travelPrompt =
  tp_destination :: jsstring
  tp_startDate :: jsstring
  tp_endDate :: jsstring
  tp_nights :: "int option"
  tp_days :: "int option"
  tp_memberCount :: rat
  tp_budget :: rat
  tp_interests :: jsstring
  tp_travelStyle :: jsstring
  tp_description :: jsstring

text \<open>
  \<open>Math.ceil((end.getTime() - start.getTime()) / (1000 * 60 * 60 * 24)) + 1\<close>, where
  \<open>getTime\<close> stands for \<open>new Date(s).getTime()\<close> of the engine: an integral number of
  milliseconds, or \<open>NaN\<close> (\<open>None\<close>), which makes the whole result \<open>NaN\<close>. The difference and
  the quotient are rounded as doubles; adding and subtracting one is exact on the
  result, whose magnitude is far below \<open>2^53\<close>.
\<close>

definition tripDays :: "(jsstring \<Rightarrow> int option) \<Rightarrow> jsstring \<Rightarrow> jsstring \<Rightarrow> int option" where
  "tripDays getTime start end =
     (case (getTime end, getTime start) of
        (Some e, Some s) \<Rightarrow>
          Some (Math_ceil (fl (fl (of_int (e - s)) / of_int msPerDay)) + 1)
      | _ \<Rightarrow> None)"

definition tripNights :: "(jsstring \<Rightarrow> int option) \<Rightarrow> jsstring \<Rightarrow> jsstring \<Rightarrow> int option" where
  "tripNights getTime start end = map_option (\<lambda>days. days - 1) (tripDays getTime start end)"

definition createTravelPrompt :: "(jsstring \<Rightarrow> int option) \<Rightarrow> travelData \<Rightarrow> travelPrompt" where
  "createTravelPrompt getTime td =
     \<lparr> tp_destination = destination td,
       tp_startDate = startDate td,
       tp_endDate = endDate td,
       tp_nights = tripNights getTime (startDate td) (endDate td),
       tp_days = tripDays getTime (startDate td) (endDate td),
       tp_memberCount = memberCount td,
       tp_budget = budget td,
       tp_interests = join (js '', '') (interests td),
       tp_travelStyle = travelStyle td,
       tp_description = (if description td = [] then tokuni_nashi else description td) \<rparr>"

record recommendationPrompt =
  rp_destination :: jsstring
  rp_region :: "jsstring option"
  rp_interests :: jsstring
  rp_budget :: jsstring
  rp_travelStyle :: jsstring
  rp_groupSize :: rat
  rp_duration :: rat
  rp_customNote :: jsstring

definition createRecommendationPrompt :: "recPrefs \<Rightarrow> recommendationPrompt" where
  "createRecommendationPrompt prefs =
     \<lparr> rp_destination = r_destination prefs,
       rp_region = (case r_region prefs of
                      None \<Rightarrow> None
                    | Some r \<Rightarrow> if r = [] then None else Some r),
       rp_interests = join (js '', '') (r_interests prefs),
       rp_budget = r_budget prefs,
       rp_travelStyle = r_travelStyle prefs,
       rp_groupSize = r_groupSize prefs,
       rp_duration = r_duration prefs,
       rp_customNote = (case r_customNote prefs of
                          None \<Rightarrow> tokuni_nashi
                        | Some n \<Rightarrow> if n = [] then tokuni_nashi else n) \<rparr>"

datatype prompt = TravelPrompt travelPrompt | RecommendationPrompt recommendationPrompt

section \<open>The fallback plan\<close>

record scheduleItem =
  time :: jsstring
  title :: jsstring
  location :: jsstring
  item_description :: jsstring
  category :: jsstring

record scheduleDay =
  date :: jsstring
  day :: jsstring
  items :: "scheduleItem list"

record place =
  place_name :: jsstring
  place_category :: jsstring
  rating :: rat
  place_description :: jsstring

record budgetBreakdown =
  transportation :: int
  accommodation :: int
  food :: int
  activities :: int

record recommendationLists =
  mustVisit :: "jsstring list"
  localFood :: "jsstring list"
  tips :: "jsstring list"

record mockPlan =
  schedule :: "scheduleDay list"
  places :: "place list"
  plan_budget :: budgetBreakdown
  plan_recommendations :: recommendationLists

text \<open>
  The budget is a number (a finite double). The literals \<open>0.3\<close>, \<open>0.4\<close>, \<open>0.2\<close> and \<open>0.1\<close>
  denote the doubles nearest to these decimals, and each product is rounded to a double
  before \<open>Math.round\<close> is applied to it.
\<close>

definition generateMockPlan :: "travelData \<Rightarrow> mockPlan" where
  "generateMockPlan td =
     \<lparr> schedule =
         [\<lparr> date = startDate td,
            day = js ''Day 1'',
            items =
              [\<lparr> time = js ''09:00'',
                 title = destination td @ [0x5230, 0x7740],
                 location = destination td,
                 item_description =
                   [0x7A7A, 0x6E2F, 0x30FB, 0x99C5, 0x304B, 0x3089, 0x76EE, 0x7684, 0x5730,
                    0x3078, 0x306E, 0x79FB, 0x52D5],
                 category = js ''transport'' \<rparr>,
               \<lparr> time = js ''14:00'',
                 title =
                   [0x304A, 0x3059, 0x3059, 0x3081, 0x89B3, 0x5149, 0x30B9, 0x30DD, 0x30C3,
                    0x30C8],
                 location = destination td @ [0x306E, 0x540D, 0x6240],
                 item_description =
                   join [0x3001] (interests td)
                   @ [0x306B, 0x57FA, 0x3065, 0x3044, 0x305F, 0x304A, 0x3059, 0x3059, 0x3081,
                      0x30B9, 0x30DD, 0x30C3, 0x30C8],
                 category = js ''sightseeing'' \<rparr>] \<rparr>],
       places =
         [\<lparr> place_name = destination td @ [0x306E, 0x4EBA, 0x6C17, 0x30B9, 0x30DD, 0x30C3, 0x30C8],
            place_category = [0x89B3, 0x5149, 0x5730],
            rating = 45 / 10,
            place_description =
              [0x0041, 0x0049, 0x304C, 0x9078, 0x3093, 0x3060, 0x304A, 0x3059, 0x3059, 0x3081,
               0x306E, 0x5834, 0x6240] \<rparr>],
       plan_budget =
         \<lparr> transportation = Math_round (fl (budget td * fl (3 / 10))),
           accommodation = Math_round (fl (budget td * fl (4 / 10))),
           food = Math_round (fl (budget td * fl (2 / 10))),
           activities = Math_round (fl (budget td * fl (1 / 10))) \<rparr>,
       plan_recommendations =
         \<lparr> mustVisit = [destination td @ [0x306E, 0x5FC5, 0x898B, 0x30B9, 0x30DD, 0x30C3, 0x30C8]],
           localFood = [destination td @ [0x306E, 0x540D, 0x7269, 0x30B0, 0x30EB, 0x30E1]],
           tips =
             [[0x73FE, 0x5730, 0x306E, 0x5929, 0x6C17, 0x3092, 0x30C1, 0x30A7, 0x30C3, 0x30AF,
               0x3057, 0x307E, 0x3057, 0x3087, 0x3046],
              [0x516C, 0x5171, 0x4EA4, 0x901A, 0x6A5F, 0x95A2, 0x306E, 0x6642, 0x523B, 0x8868,
               0x3092, 0x78BA, 0x8A8D, 0x3057, 0x307E, 0x3057, 0x3087, 0x3046]] \<rparr> \<rparr>"

section \<open>JSON values\<close>

text \<open>
  What \<open>JSON.parse\<close> returns. A number is a finite double, kept by its value, or an
  infinity (from a literal beyond the range of the doubles); an object is kept by its
  own properties in order.
\<close>

datatype jsnumber = Finite rat | PosInfinity | NegInfinity

datatype json =
    JNull
  | JBool bool
  | JNum jsnumber
  | JStr jsstring
  | JArr "json list"
  | JObj "(jsstring \<times> json) list"

text \<open>Truthiness, as \<open>||\<close> and \<open>!\<close> test it; \<open>None\<close> is \<open>undefined\<close>.\<close>

fun truthy :: "json option \<Rightarrow> bool" where
  "truthy None = False"
| "truthy (Some JNull) = False"
| "truthy (Some (JBool b)) = b"
| "truthy (Some (JNum n)) = (n \<noteq> Finite 0)"
| "truthy (Some (JStr s)) = (s \<noteq> [])"
| "truthy (Some (JArr xs)) = True"
| "truthy (Some (JObj kvs)) = True"

text \<open>The decimal name of an index, as a property key.\<close>

function indexKey :: "nat \<Rightarrow> jsstring" where
  "indexKey n =
     (if n < 10 then [of_nat (48 + n)] else indexKey (n div 10) @ [of_nat (48 + n mod 10)])"
  by pat_completeness auto
termination
  by (relation "measure id") auto

declare indexKey.simps [simp del]

text \<open>
  The own enumerable properties of a value, which is what object spread \<open>{...v}\<close> copies:
  the members of an object, the elements of an array and the code units of a string
  under their indices, nothing for a number or a boolean.
\<close>

fun ownProps :: "json \<Rightarrow> (jsstring \<times> json) list" where
  "ownProps (JObj kvs) = kvs"
| "ownProps (JArr xs) = zip (map indexKey [0..<length xs]) xs"
| "ownProps (JStr s) = zip (map indexKey [0..<length s]) (map (\<lambda>c. JStr [c]) s)"
| "ownProps v = []"

section \<open>Exceptions and the runtime\<close>

text \<open>
  A thrown value is an \<open>Error\<close> (of any subclass) with its message, or something that is
  not an \<open>Error\<close>. The messages of the \<open>TypeError\<close>s that the engine raises itself are
  not fixed by the language, so the runtime supplies them.
\<close>

datatype thrown = ErrorObj jsstring | NonError

datatype typeError = ReadOfNull | NotAFunction

datatype client = GoogleGenerativeAI jsstring

text \<open>
  What the service uses and does not define: the environment variable
  \<open>GEMINI_API_KEY\<close>, the hosted model (\<open>getGenerativeModel\<close>, \<open>generateContent\<close>,
  \<open>response.text()\<close> taken as one call that returns the text or throws), \<open>JSON.parse\<close>,
  \<open>new Date(s).getTime()\<close> (\<open>None\<close> is \<open>NaN\<close>), and the messages of the engine's type
  errors.
\<close>

record runtime =
  GEMINI_API_KEY :: "jsstring option"
  generateContent :: "client \<Rightarrow> jsstring \<Rightarrow> prompt \<Rightarrow> thrown + jsstring"
  JSON_parse :: "jsstring \<Rightarrow> thrown + json"
  Date_getTime :: "jsstring \<Rightarrow> int option"
  typeErrorMessage :: "typeError \<Rightarrow> jsstring"

text \<open>
  The state of the module is the variable \<open>genAI\<close>. \<open>getGenAIClient\<close> returns the client
  or throws, and the new value of \<open>genAI\<close>.
\<close>

definition getGenAIClient ::
    "runtime \<Rightarrow> client option \<Rightarrow> (thrown + client) \<times> client option" where
  "getGenAIClient rt genAI =
     (case genAI of
        Some c \<Rightarrow> (Inr c, genAI)
      | None \<Rightarrow>
          (case GEMINI_API_KEY rt of
             None \<Rightarrow> (Inl (ErrorObj (js ''GEMINI_API_KEY is not defined'')), genAI)
           | Some apiKey \<Rightarrow>
               if apiKey = []
               then (Inl (ErrorObj (js ''GEMINI_API_KEY is not defined'')), genAI)
               else (Inr (GoogleGenerativeAI apiKey), Some (GoogleGenerativeAI apiKey))))"

section \<open>Extraction of the JSON text\<close>

text \<open>\<open>/```json\s*([\s\S]*?)\s*```/\<close>\<close>

definition fenceRe :: rx where
  "fenceRe =
     Seq (Lit (js ''```json''))
      (Seq (StarG Space)
        (Seq (Grp 1 (StarL AnyChar))
          (Seq (StarG Space) (Lit (js ''```'')))))"

text \<open>\<open>/\{[\s\S]*\}/\<close>\<close>

definition objectRe :: rx where
  "objectRe = Seq (Lit (js ''{'')) (Seq (StarG AnyChar) (Lit (js ''}'')))"

text \<open>\<open>/\[.*\]/s\<close>\<close>

definition arrayRe :: rx where
  "arrayRe = Seq (Lit (js ''['')) (Seq (StarG AnyChar) (Lit (js '']'')))"

text \<open>
  \<open>const jsonMatch = text.match(A) || text.match(B);\<close>
  \<open>const jsonString = jsonMatch ? jsonMatch[1] || jsonMatch[0] : text;\<close>
  An empty capture is falsy, as an absent one is.
\<close>

definition extractJson :: "rx \<Rightarrow> jsstring \<Rightarrow> jsstring" where
  "extractJson second text =
     (let jsonMatch = (case exec fenceRe text of
                         Some m \<Rightarrow> Some m
                       | None \<Rightarrow> exec second text)
      in case jsonMatch of
           None \<Rightarrow> text
         | Some (m0, caps) \<Rightarrow>
             (case group caps 1 of
                None \<Rightarrow> m0
              | Some m1 \<Rightarrow> if m1 = [] then m0 else m1))"

section \<open>Plan generation\<close>

datatype planData = Parsed json | Mock mockPlan

record planPayload =
  success :: bool
  data :: planData
  error :: "jsstring option"

definition modelName :: jsstring where
  "modelName = js ''gemini-2.0-flash''"

text \<open>\<open>error instanceof Error ? error.message : d\<close>\<close>

definition errorMessage :: "thrown \<Rightarrow> jsstring \<Rightarrow> jsstring" where
  "errorMessage e d = (case e of ErrorObj m \<Rightarrow> m | NonError \<Rightarrow> d)"

definition planFailedMsg :: jsstring where
  "planFailedMsg =
     [0x0041, 0x0049, 0x30D7, 0x30E9, 0x30F3, 0x751F, 0x6210, 0x306B, 0x5931, 0x6557, 0x3057,
      0x307E, 0x3057, 0x305F]"

text \<open>The \<open>catch\<close> block of \<open>generateTravelPlan\<close>.\<close>

definition planFallback :: "travelData \<Rightarrow> thrown \<Rightarrow> planPayload" where
  "planFallback td e =
     \<lparr> success = False,
       data = Mock (generateMockPlan td),
       error = Some (errorMessage e planFailedMsg) \<rparr>"

text \<open>
  The whole body of \<open>generateTravelPlan\<close> is inside \<open>try\<close>, the call of
  \<open>getGenAIClient\<close> included. The result is the payload and the new value of \<open>genAI\<close>.
\<close>

definition generateTravelPlan ::
    "runtime \<Rightarrow> client option \<Rightarrow> travelData \<Rightarrow> planPayload \<times> client option" where
  "generateTravelPlan rt genAI td =
     (case getGenAIClient rt genAI of
        (Inl e, genAI') \<Rightarrow> (planFallback td e, genAI')
      | (Inr c, genAI') \<Rightarrow>
          (case generateContent rt c modelName
                  (TravelPrompt (createTravelPrompt (Date_getTime rt) td)) of
             Inl e \<Rightarrow> (planFallback td e, genAI')
           | Inr text \<Rightarrow>
               (case JSON_parse rt (extractJson objectRe text) of
                  Inl e \<Rightarrow> (planFallback td e, genAI')
                | Inr plan \<Rightarrow>
                    (\<lparr> success = True, data = Parsed plan, error = None \<rparr>, genAI'))))"

section \<open>Recommendation generation\<close>

record recPayload =
  r_success :: bool
  recommendations :: "json list"
  r_error :: "jsstring option"

definition invalidListMsg :: jsstring where
  "invalidListMsg =
     [0x0041, 0x0049, 0x304B, 0x3089, 0x6709, 0x52B9, 0x306A, 0x63A8, 0x85A6, 0x30EA, 0x30B9,
      0x30C8, 0x304C, 0x53D6, 0x5F97, 0x3067, 0x304D, 0x307E, 0x305B, 0x3093, 0x3067, 0x3057,
      0x305F, 0x3002, 0x76EE, 0x7684, 0x5730, 0x3084, 0x6761, 0x4EF6, 0x3092, 0x898B, 0x76F4,
      0x3057, 0x3066, 0x304F, 0x3060, 0x3055, 0x3044, 0x3002]"

definition notArrayMsg :: jsstring where
  "notArrayMsg =
     [0x0041, 0x0049, 0x30EC, 0x30B9, 0x30DD, 0x30F3, 0x30B9, 0x304C, 0x914D, 0x5217, 0x5F62,
      0x5F0F, 0x3067, 0x306F, 0x3042, 0x308A, 0x307E, 0x305B, 0x3093]"

definition recFailedMsg :: jsstring where
  "recFailedMsg =
     [0x0041, 0x0049, 0x63A8, 0x85A6, 0x751F, 0x6210, 0x306B, 0x5931, 0x6557, 0x3057, 0x307E,
      0x3057, 0x305F]"

definition placeholderImage :: jsstring where
  "placeholderImage =
     js ''https://images.pexels.com/photos/1008155/pexels-photo-1008155.jpeg?auto=compress&w=600''"

text \<open>
  The inner \<open>try\<close>: \<open>JSON.parse\<close>, then the \<open>Array.isArray\<close> test, which throws inside
  the same \<open>try\<close>; its \<open>catch\<close> replaces whatever was thrown by one fixed error.
\<close>

definition parseArray :: "runtime \<Rightarrow> jsstring \<Rightarrow> thrown + json list" where
  "parseArray rt jsonString =
     (case (case JSON_parse rt jsonString of
              Inl e \<Rightarrow> Inl e
            | Inr (JArr xs) \<Rightarrow> Inr xs
            | Inr _ \<Rightarrow> Inl (ErrorObj notArrayMsg)) of
        Inl e \<Rightarrow> Inl (ErrorObj invalidListMsg)
      | Inr xs \<Rightarrow> Inr xs)"

text \<open>
  \<open>rec.name\<close>, \<open>rec.description\<close> and \<open>rec.image\<close>: reading a property of \<open>null\<close> throws;
  on any other value these three keys (no index, not \<open>length\<close>, no member of a prototype)
  are found among the own properties or are \<open>undefined\<close>.
\<close>

definition readProp :: "runtime \<Rightarrow> json \<Rightarrow> jsstring \<Rightarrow> thrown + json option" where
  "readProp rt v k =
     (case v of
        JNull \<Rightarrow> Inl (ErrorObj (typeErrorMessage rt ReadOfNull))
      | _ \<Rightarrow> Inr (map_of (ownProps v) k))"

text \<open>
  \<open>(v || '').replace(/\s/g, '')\<close>: a truthy value that is not a string has no method
  \<open>replace\<close>.
\<close>

definition stripped :: "runtime \<Rightarrow> json option \<Rightarrow> thrown + jsstring" where
  "stripped rt v =
     (if truthy v
      then (case v of
              Some (JStr s) \<Rightarrow> Inr (stripSpace s)
            | _ \<Rightarrow> Inl (ErrorObj (typeErrorMessage rt NotAFunction)))
      else Inr (stripSpace []))"

text \<open>The callback of \<open>filter\<close>; an empty \<open>region\<close> is falsy.\<close>

definition keepRec :: "runtime \<Rightarrow> jsstring \<Rightarrow> jsstring \<Rightarrow> json \<Rightarrow> thrown + bool" where
  "keepRec rt dest region rec =
     (case readProp rt rec (js ''name'') of
        Inl e \<Rightarrow> Inl e
      | Inr n \<Rightarrow>
          (case stripped rt n of
             Inl e \<Rightarrow> Inl e
           | Inr name \<Rightarrow>
               (case readProp rt rec (js ''description'') of
                  Inl e \<Rightarrow> Inl e
                | Inr d \<Rightarrow>
                    (case stripped rt d of
                       Inl e \<Rightarrow> Inl e
                     | Inr desc \<Rightarrow>
                         Inr (includes_str name dest \<or> includes_str desc dest
                              \<or> (region \<noteq> []
                                  \<and> (includes_str name region \<or> includes_str desc region)))))))"

text \<open>\<open>/\.(jpg|jpeg|png|webp|gif|bmp|svg)(\?.*)?$/i\<close>\<close>

definition imageRe :: rx where
  "imageRe =
     Seq (LitI (js ''.''))
      (Seq (Grp 1
             (Alt (LitI (js ''jpg'')) (Alt (LitI (js ''jpeg'')) (Alt (LitI (js ''png''))
             (Alt (LitI (js ''webp'')) (Alt (LitI (js ''gif'')) (Alt (LitI (js ''bmp''))
                  (LitI (js ''svg'')))))))))
        (Seq (Opt (Grp 2 (Seq (LitI (js ''?'')) (StarG Dot)))) Eos))"

definition isValidImage :: "json option \<Rightarrow> bool" where
  "isValidImage url =
     (case url of
        Some (JStr u) \<Rightarrow>
          prefix (js ''https://'') u \<and> test imageRe u \<and> 15 \<le> length u \<and> length u \<le> 300
      | _ \<Rightarrow> False)"

text \<open>
  The callback of \<open>map\<close>:
  \<open>{ ...rec, image: isValidImage(rec.image) ? rec.image : placeholder }\<close>.
  The key \<open>image\<close> keeps its place when \<open>rec\<close> has it and comes last otherwise.
\<close>

definition fixImage :: "runtime \<Rightarrow> json \<Rightarrow> thrown + json" where
  "fixImage rt rec =
     (case readProp rt rec (js ''image'') of
        Inl e \<Rightarrow> Inl e
      | Inr img \<Rightarrow>
          Inr (JObj (AList.update (js ''image'')
                       (if isValidImage img
                        then (case img of Some v \<Rightarrow> v | None \<Rightarrow> JStr placeholderImage)
                        else JStr placeholderImage)
                       (ownProps rec))))"

text \<open>\<open>filter\<close> and \<open>map\<close> with a callback that may throw: the first throw ends the loop.\<close>

fun filterE :: "('a \<Rightarrow> thrown + bool) \<Rightarrow> 'a list \<Rightarrow> thrown + 'a list" where
  "filterE f [] = Inr []"
| "filterE f (x # xs) =
     (case f x of
        Inl e \<Rightarrow> Inl e
      | Inr b \<Rightarrow>
          (case filterE f xs of
             Inl e \<Rightarrow> Inl e
           | Inr ys \<Rightarrow> Inr (if b then x # ys else ys)))"

fun mapE :: "('a \<Rightarrow> thrown + 'b) \<Rightarrow> 'a list \<Rightarrow> thrown + 'b list" where
  "mapE f [] = Inr []"
| "mapE f (x # xs) =
     (case f x of
        Inl e \<Rightarrow> Inl e
      | Inr y \<Rightarrow>
          (case mapE f xs of
             Inl e \<Rightarrow> Inl e
           | Inr ys \<Rightarrow> Inr (y # ys)))"

text \<open>The \<open>catch\<close> block of \<open>generateRecommendations\<close>.\<close>

definition recFailed :: "thrown \<Rightarrow> recPayload" where
  "recFailed e =
     \<lparr> r_success = False,
       recommendations = [],
       r_error = Some (errorMessage e recFailedMsg) \<rparr>"

text \<open>\<open>prefs.destination.replace(/\s/g, '')\<close> and \<open>(prefs.region || '').replace(/\s/g, '')\<close>\<close>

definition destOf :: "recPrefs \<Rightarrow> jsstring" where
  "destOf prefs = stripSpace (r_destination prefs)"

definition regionOf :: "recPrefs \<Rightarrow> jsstring" where
  "regionOf prefs = stripSpace (case r_region prefs of None \<Rightarrow> [] | Some r \<Rightarrow> r)"

definition generateRecommendations ::
    "runtime \<Rightarrow> client option \<Rightarrow> recPrefs \<Rightarrow> recPayload \<times> client option" where
  "generateRecommendations rt genAI prefs =
     (case getGenAIClient rt genAI of
        (Inl e, genAI') \<Rightarrow> (recFailed e, genAI')
      | (Inr c, genAI') \<Rightarrow>
          (case generateContent rt c modelName
                  (RecommendationPrompt (createRecommendationPrompt prefs)) of
             Inl e \<Rightarrow> (recFailed e, genAI')
           | Inr text \<Rightarrow>
               (case parseArray rt (extractJson arrayRe text) of
                  Inl e \<Rightarrow> (recFailed e, genAI')
                | Inr recs \<Rightarrow>
                    (case filterE (keepRec rt (destOf prefs) (regionOf prefs)) recs of
                       Inl e \<Rightarrow> (recFailed e, genAI')
                     | Inr kept \<Rightarrow>
                         (case mapE (fixImage rt) kept of
                            Inl e \<Rightarrow> (recFailed e, genAI')
                          | Inr filtered \<Rightarrow>
                              (\<lparr> r_success = True, recommendations = filtered,
                                 r_error = None \<rparr>, genAI'))))))"

section \<open>Derived notions and example inputs\<close>

text \<open>The total of the four shares of a plan's budget.\<close>

definition budgetTotal :: "mockPlan \<Rightarrow> int" where
  "budgetTotal p =
     transportation (plan_budget p) + accommodation (plan_budget p)
     + food (plan_budget p) + activities (plan_budget p)"

text \<open>A trip to Kyoto, 15 to 17 March 2024, with a budget of 50005.\<close>

definition kyotoTrip :: travelData where
  "kyotoTrip =
     \<lparr> destination = [0x4EAC, 0x90FD],
       startDate = js ''2024-03-15'',
       endDate = js ''2024-03-17'',
       memberCount = 2,
       budget = 50005,
       interests = [js ''temples'', js ''food''],
       travelStyle = js ''balanced'',
       description = [] \<rparr>"

text \<open>
  A stage of recommendation generation fails: the client cannot be built, the model
  call throws, \<open>JSON.parse\<close> throws on the extracted text, or the parsed value is not an
  array.
\<close>

definition recStageFails :: "runtime \<Rightarrow> client option \<Rightarrow> recPrefs \<Rightarrow> bool" where
  "recStageFails rt genAI prefs =
     (case getGenAIClient rt genAI of
        (Inl e, _) \<Rightarrow> True
      | (Inr c, _) \<Rightarrow>
          (case generateContent rt c modelName
                  (RecommendationPrompt (createRecommendationPrompt prefs)) of
             Inl e \<Rightarrow> True
           | Inr text \<Rightarrow>
               (case JSON_parse rt (extractJson arrayRe text) of
                  Inl e \<Rightarrow> True
                | Inr (JArr xs) \<Rightarrow> False
                | Inr _ \<Rightarrow> True)))"

text \<open>
  The array that recommendation generation parsed (empty when it did not get that far),
  and the elements of it that the callback of \<open>filter\<close> keeps.
\<close>

definition parsedRecs :: "runtime \<Rightarrow> client option \<Rightarrow> recPrefs \<Rightarrow> json list" where
  "parsedRecs rt genAI prefs =
     (case getGenAIClient rt genAI of
        (Inl e, _) \<Rightarrow> []
      | (Inr c, _) \<Rightarrow>
          (case generateContent rt c modelName
                  (RecommendationPrompt (createRecommendationPrompt prefs)) of
             Inl e \<Rightarrow> []
           | Inr text \<Rightarrow>
               (case parseArray rt (extractJson arrayRe text) of
                  Inl e \<Rightarrow> []
                | Inr recs \<Rightarrow> recs)))"

definition survives :: "runtime \<Rightarrow> recPrefs \<Rightarrow> json \<Rightarrow> bool" where
  "survives rt prefs rec \<longleftrightarrow> keepRec rt (destOf prefs) (regionOf prefs) rec = Inr True"

text \<open>A field of an element, and a field read as text (empty when it is not a string).\<close>

definition field :: "json \<Rightarrow> jsstring \<Rightarrow> json option" where
  "field v k = map_of (ownProps v) k"

definition textOf :: "json \<Rightarrow> jsstring \<Rightarrow> jsstring" where
  "textOf v k = (case field v k of Some (JStr s) \<Rightarrow> s | _ \<Rightarrow> [])"

text \<open>
  The invariant of a recommendation in the words of the specification: the name or the
  description, stripped of white space, contains the stripped destination, or a region
  was supplied and one of them contains the stripped region.
\<close>

definition mentionsPlace :: "recPrefs \<Rightarrow> json \<Rightarrow> bool" where
  "mentionsPlace prefs rec \<longleftrightarrow>
     includes_str (stripSpace (textOf rec (js ''name''))) (stripSpace (r_destination prefs))
     \<or> includes_str (stripSpace (textOf rec (js ''description''))) (stripSpace (r_destination prefs))
     \<or> (case r_region prefs of
           None \<Rightarrow> False
         | Some region \<Rightarrow>
             includes_str (stripSpace (textOf rec (js ''name''))) (stripSpace region)
             \<or> includes_str (stripSpace (textOf rec (js ''description''))) (stripSpace region))"

text \<open>
  The image rule in the words of the specification: the value starts with \<open>https://\<close>,
  matches the suffix pattern \<open>\.(jpg|jpeg|png|webp|gif|bmp|svg)(\?.*)?$\<close> as the
  specification writes it, without a flag, and has a length from 15 to 300.
\<close>

definition imageReAsSpecified :: rx where
  "imageReAsSpecified =
     Seq (Lit (js ''.''))
      (Seq (Grp 1
             (Alt (Lit (js ''jpg'')) (Alt (Lit (js ''jpeg'')) (Alt (Lit (js ''png''))
             (Alt (Lit (js ''webp'')) (Alt (Lit (js ''gif'')) (Alt (Lit (js ''bmp''))
                  (Lit (js ''svg'')))))))))
        (Seq (Opt (Grp 2 (Seq (Lit (js ''?'')) (StarG Dot)))) Eos))"

definition validImageAsSpecified :: "json option \<Rightarrow> bool" where
  "validImageAsSpecified url =
     (case url of
        Some (JStr u) \<Rightarrow>
          prefix (js ''https://'') u \<and> test imageReAsSpecified u
          \<and> 15 \<le> length u \<and> length u \<le> 300
      | _ \<Rightarrow> False)"



text \<open>
  The two patterns of the second attempt have one shape: an opening bracket, the greedy
  star of any code unit, the closing bracket.
\<close>

definition pairRe :: "char16 \<Rightarrow> char16 \<Rightarrow> rx" where
  "pairRe a b = Seq (Lit [a]) (Seq (StarG AnyChar) (Lit [b]))"

text \<open>
  Example runtimes. \<open>JSON.parse\<close> is given on the few texts that the examples use (any
  other text is a syntax error here); dates are read in the date-only form; the model
  replies with a fixed text or throws.
\<close>

definition exampleRecs :: "json list" where
  "exampleRecs =
     [JObj [(js ''name'', JStr [0x6771, 0x4EAC, 0x30BF, 0x30EF, 0x30FC]),
            (js ''description'', JStr (js ''A tall tower'')),
            (js ''image'', JStr [])],
      JObj [(js ''name'', JStr [0x91D1, 0x95A3, 0x5BFA]),
            (js ''description'', JStr ([0x4EAC, 0x90FD] @ js '' no temple'')),
            (js ''rating'', JNum (Finite (45 / 10))),
            (js ''image'', JStr (js ''https://example.com/kinkakuji.JPG''))],
      JObj [(js ''name'', JStr ([0x4EAC, 0x90FD] @ js '' Tower'')),
            (js ''image'', JStr (js ''http://example.com/tower.png''))]]"

definition exampleRecsText :: jsstring where
  \<open>exampleRecsText =
     js ''[{"name":"'' @ [0x6771, 0x4EAC, 0x30BF, 0x30EF, 0x30FC]
     @ js ''","description":"A tall tower","image":""},''
     @ js ''{"name":"'' @ [0x91D1, 0x95A3, 0x5BFA] @ js ''","description":"'' @ [0x4EAC, 0x90FD]
     @ js '' no temple","rating":4.5,"image":"https://example.com/kinkakuji.JPG"},''
     @ js ''{"name":"'' @ [0x4EAC, 0x90FD]
     @ js '' Tower","image":"http://example.com/tower.png"}]''\<close>

definition exampleParse :: "jsstring \<Rightarrow> thrown + json" where
  \<open>exampleParse s =
     (if s = js ''{}'' then Inr (JObj [])
      else if s = js ''[]'' then Inr (JArr [])
      else if s = js ''{"recommendations":[]}'' then Inr (JObj [(js ''recommendations'', JArr [])])
      else if s = exampleRecsText then Inr (JArr exampleRecs)
      else Inl (ErrorObj (js ''Unexpected token'')))\<close>

definition exampleTypeError :: "typeError \<Rightarrow> jsstring" where
  "exampleTypeError t =
     (case t of
        ReadOfNull \<Rightarrow> js ''Cannot read properties of null''
      | NotAFunction \<Rightarrow> js ''replace is not a function'')"

definition exampleRuntime :: "jsstring option \<Rightarrow> thrown + jsstring \<Rightarrow> runtime" where
  "exampleRuntime key reply =
     \<lparr> GEMINI_API_KEY = key,
       generateContent = (\<lambda>c m p. reply),
       JSON_parse = exampleParse,
       Date_getTime = dateOnlyTime,
       typeErrorMessage = exampleTypeError \<rparr>"

definition testKey :: jsstring where
  "testKey = js ''test-key''"

text \<open>A reply that wraps the empty object in a fenced block labelled \<open>json\<close>.\<close>

definition fencedEmptyObject :: jsstring where
  "fencedEmptyObject =
     js ''Here is the plan:'' @ [0x0A] @ js ''```json'' @ [0x0A] @ js ''{}'' @ [0x0A] @ js ''```''"

text \<open>
  A reply that wraps the empty object in a fenced block without a label and adds a note
  with braces.
\<close>

definition unlabelledFence :: jsstring where
  "unlabelledFence =
     js ''```'' @ [0x0A] @ js ''{}'' @ [0x0A] @ js ''```'' @ [0x0A] @ js ''Prices are in {JPY}.''"

text \<open>A reply with the empty object between two sentences.\<close>

definition bareObject :: jsstring where
  "bareObject = js ''The plan is {} for now.''"

text \<open>Recommendations for Kyoto, without a region.\<close>

definition kyotoPrefs :: recPrefs where
  "kyotoPrefs =
     \<lparr> r_destination = [0x4EAC, 0x90FD],
       r_region = None,
       r_interests = [js ''temples''],
       r_budget = js ''medium'',
       r_travelStyle = js ''balanced'',
       r_groupSize = 2,
       r_duration = 3,
       r_customNote = None \<rparr>"

lemmas string_defs = js_def isSpace_def isLineTerminator_def stripSpace_def canon_def

lemmas regex_defs = fenceRe_def objectRe_def arrayRe_def extractJson_def group_def test_def

lemmas example_defs =
  exampleRuntime_def exampleParse_def exampleTypeError_def testKey_def exampleRecsText_def
  exampleRecs_def fencedEmptyObject_def kyotoPrefs_def kyotoTrip_def unlabelledFence_def
  bareObject_def

lemmas date_defs =
  dateOnlyTime_def parseIsoDate_def isDigit_def validDate_def
  daysInMonth_def isLeapYear_def MakeDay_def DayFromYear_def daysBeforeMonth_def

(*PROPERTIES*)
section \<open>Matching\<close>

subsection \<open>The search for the leftmost match\<close>



subsection \<open>A bracket, anything, a bracket\<close>


lemma greedy_Lit_none:
  "b \<notin> set s \<Longrightarrow> ms (Seq (StarG AnyChar) (Lit [b])) (c, s) = []"
  by (induction s) auto


lemma ms_pairRe_Cons:
  "ms (pairRe a b) (c, x # xs) =
     (if x = a then ms (Seq (StarG AnyChar) (Lit [b])) (c, xs) else [])"
  by (simp add: pairRe_def)

lemma ms_pairRe_Nil: "ms (pairRe a b) (c, []) = []"
  by (simp add: pairRe_def)

lemma ms_pairRe_none:
  "a \<notin> set s \<or> b \<notin> set s \<Longrightarrow> ms (pairRe a b) (c, s) = []"
  by (cases s) (auto simp: ms_pairRe_Cons ms_pairRe_Nil greedy_Lit_none simp del: ms.simps)





subsection \<open>Stars in a sequence\<close>









subsection \<open>The fenced block\<close>











subsection \<open>The extractor\<close>








section \<open>The extractor: what it returns\<close>






section \<open>Rounding to a double\<close>

lemma floorLog2_bounds:
  assumes "0 < x"
  shows "2 powi (floorLog2 x) \<le> x" and "x < 2 powi (floorLog2 x + 1)"
proof -
  have "2 powi (floorLog2 x) \<le> x \<and> x < 2 powi (floorLog2 x + 1)"
  proof (cases "1 \<le> x")
    case True
    define n where "n = \<lfloor>x\<rfloor>"
    have n: "0 < n" "of_int n \<le> x" "x < of_int n + 1"
      using True by (simp_all add: n_def) linarith
    have k: "1 \<le> bitlen n"
      using n(1) by (simp add: bitlen_alt_def)
    from bitlen_bounds [OF n(1)] have b: "2 ^ nat (bitlen n - 1) \<le> n" "n + 1 \<le> 2 ^ nat (bitlen n)"
      by simp_all
    have "(2::rat) powi (bitlen n - 1) = of_int (2 ^ nat (bitlen n - 1))"
      using k by (simp add: power_int_def)
    also have "\<dots> \<le> of_int n"
      using b(1) by (simp only: of_int_le_iff)
    finally have lo: "(2::rat) powi (bitlen n - 1) \<le> x"
      using n(2) by simp
    have "x < of_int (n + 1)"
      using n(3) by simp
    also have "\<dots> \<le> of_int (2 ^ nat (bitlen n))"
      using b(2) by (simp only: of_int_le_iff)
    also have "\<dots> = (2::rat) powi (bitlen n - 1 + 1)"
      using k by (simp add: power_int_def)
    finally have hi: "x < (2::rat) powi (bitlen n - 1 + 1)" .
    from lo hi True show ?thesis
      by (simp add: floorLog2_def n_def)
  next
    case False
    define y where "y = 1 / x"
    define m where "m = \<lceil>y\<rceil>"
    have y: "1 < y"
      using False assms by (simp add: y_def)
    have m: "y \<le> of_int m" "of_int m - 1 < y"
      by (simp_all add: m_def) linarith
    have m1: "0 < m - 1"
      using y m(1) by linarith
    define k where "k = bitlen (m - 1)"
    have k: "1 \<le> k"
      using m1 by (simp add: k_def bitlen_alt_def)
    from bitlen_bounds [OF m1] have b: "2 ^ nat (k - 1) \<le> m - 1" "m \<le> 2 ^ nat k"
      by (simp_all add: k_def)
    have "y \<le> of_int (2 ^ nat k)"
      using m(1) b(2) by (meson of_int_le_iff order_trans)
    also have "\<dots> = (2::rat) powi k"
      using k by (simp add: power_int_def)
    finally have 1: "y \<le> 2 powi k" .
    have "(2::rat) powi (k - 1) = of_int (2 ^ nat (k - 1))"
      using k by (simp add: power_int_def)
    also have "\<dots> \<le> of_int (m - 1)"
      using b(1) by (simp only: of_int_le_iff)
    also have "\<dots> < y"
      using m(2) by simp
    finally have 2: "2 powi (k - 1) < y" .
    have x: "x = 1 / y"
      by (simp add: y_def)
    have "2 powi (- k) \<le> x"
      using 1 y unfolding x power_int_minus by (simp add: field_simps)
    moreover have "x < 2 powi (- k + 1)"
    proof -
      have "(2::rat) powi (- k + 1) = inverse (2 powi (k - 1))"
        by (simp flip: power_int_minus)
      moreover have "1 / y < inverse (2 powi (k - 1))"
        using 2 y by (simp add: field_simps)
      ultimately show ?thesis
        by (simp add: x)
    qed
    ultimately show ?thesis
      using False by (simp add: floorLog2_def k_def m_def y_def)
  qed
  then show "2 powi (floorLog2 x) \<le> x" and "x < 2 powi (floorLog2 x + 1)"
    by simp_all
qed

lemma floorLog2_unique:
  assumes "2 powi k \<le> x" and "x < 2 powi (k + 1)"
  shows "floorLog2 x = k"
proof -
  have x: "0 < x"
    using assms(1) by (meson less_le_trans zero_less_numeral zero_less_power_int)
  note b = floorLog2_bounds [OF x]
  have "(2::rat) powi k < 2 powi (floorLog2 x + 1)"
    using assms(1) b(2) by simp
  then have 1: "k < floorLog2 x + 1"
    by (metis linorder_not_less one_less_numeral_iff power_int_increasing less_imp_le
        semiring_norm(76))
  have "(2::rat) powi (floorLog2 x) < 2 powi (k + 1)"
    using assms(2) b(1) by simp
  then have 2: "floorLog2 x < k + 1"
    by (metis linorder_not_less one_less_numeral_iff power_int_increasing less_imp_le
        semiring_norm(76))
  from 1 2 show ?thesis
    by simp
qed

lemma roundEven_error: "\<bar>of_int (roundEven t) - t\<bar> \<le> 1 / 2"
proof -
  define f where "f = \<lfloor>t\<rfloor>"
  have f: "of_int f \<le> t" "t < of_int f + 1"
    unfolding f_def by linarith+
  have "roundEven t = f \<and> t - of_int f \<le> 1 / 2
      \<or> roundEven t = f + 1 \<and> 1 / 2 \<le> t - of_int f"
    unfolding roundEven_def f_def [symmetric] by auto
  then show ?thesis
  proof
    assume "roundEven t = f \<and> t - of_int f \<le> 1 / 2"
    with f show ?thesis by simp
  next
    assume "roundEven t = f + 1 \<and> 1 / 2 \<le> t - of_int f"
    with f show ?thesis by simp
  qed
qed

lemma roundEven_of_int: "roundEven (of_int n) = n"
  by (simp add: roundEven_def)


lemma fl_eval:
  assumes "2 powi L \<le> \<bar>x\<bar>" and "\<bar>x\<bar> < 2 powi (L + 1)" and "- 1022 \<le> L"
  shows "fl x = sgn x * of_int (roundEven (\<bar>x\<bar> / 2 powi (L - 52))) * 2 powi (L - 52)"
proof -
  have "0 < \<bar>x\<bar>"
    using assms(1) by (meson less_le_trans zero_less_numeral zero_less_power_int)
  then have "x \<noteq> 0" by simp
  moreover have "floorLog2 \<bar>x\<bar> = L"
    using assms(1,2) by (rule floorLog2_unique)
  moreover have "max (L - 52) (- 1074) = L - 52"
    using assms(3) by simp
  ultimately show ?thesis
    by (simp add: fl_def Let_def)
qed

lemma fl_error: "\<bar>fl x - x\<bar> \<le> \<bar>x\<bar> / 2 ^ 53 + 1 / 2 ^ 1075"
proof (cases "x = 0")
  case True
  then show ?thesis by (simp add: fl_def)
next
  case False
  define L where "L = floorLog2 \<bar>x\<bar>"
  define e where "e = max (L - 52) (- 1074)"
  define t where "t = \<bar>x\<bar> / 2 powi e"
  have p: "(0::rat) < 2 powi e"
    by simp
  have x: "x = sgn x * t * 2 powi e"
    using p by (simp add: t_def sgn_if)
  have f: "fl x = sgn x * of_int (roundEven t) * 2 powi e"
    using False by (simp add: fl_def Let_def L_def e_def t_def)
  have "fl x - x = sgn x * (of_int (roundEven t) - t) * 2 powi e"
    by (subst f, subst (2) x) (simp add: algebra_simps)
  then have "\<bar>fl x - x\<bar> = \<bar>of_int (roundEven t) - t\<bar> * 2 powi e"
    using False p by (simp add: abs_mult abs_sgn_eq)
  also have "\<dots> \<le> 1 / 2 * 2 powi e"
    using roundEven_error [of t] p by (intro mult_right_mono) simp_all
  finally have err: "\<bar>fl x - x\<bar> \<le> 2 powi e / 2"
    by simp
  have "(2::rat) powi e \<le> \<bar>x\<bar> / 2 ^ 52 + 1 / 2 ^ 1074"
  proof (cases "L - 52 \<le> - 1074")
    case True
    then have "e = - 1074" by (simp add: e_def)
    then have "(2::rat) powi e = 1 / 2 ^ 1074"
      by (simp add: power_int_minus field_simps)
    then show ?thesis by simp
  next
    case False
    then have "e = L - 52" by (simp add: e_def)
    then have "(2::rat) powi e = 2 powi L / 2 ^ 52"
      by (simp add: power_int_diff)
    moreover have "2 powi L \<le> \<bar>x\<bar>"
      unfolding L_def using \<open>x \<noteq> 0\<close> by (intro floorLog2_bounds) simp
    ultimately have "(2::rat) powi e \<le> \<bar>x\<bar> / 2 ^ 52"
      by (simp add: divide_right_mono)
    then show ?thesis
      by (smt (verit) divide_nonneg_nonneg zero_le_numeral zero_le_power zero_le_one add_increasing2)
  qed
  with err show ?thesis
    by (simp add: field_simps)
qed

lemma fl_of_int:
  assumes "\<bar>n\<bar> < 2 ^ 53"
  shows "fl (of_int n) = of_int n"
proof (cases "n = 0")
  case True
  then show ?thesis by (simp add: fl_def)
next
  case False
  define L where "L = floorLog2 \<bar>of_int n\<bar>"
  have pos: "(0::rat) < \<bar>of_int n\<bar>"
    using False by simp
  note b = floorLog2_bounds [OF pos, folded L_def]
  have "(1::rat) \<le> \<bar>of_int n\<bar>"
    using False by (metis abs_ge_zero linorder_not_less of_int_abs of_int_le_iff
        of_int_1 zero_less_abs_iff int_one_le_iff_zero_less)
  with b(2) have "(2::rat) powi 0 < 2 powi (L + 1)"
    by simp
  then have L0: "0 \<le> L"
    by (metis linorder_not_less one_less_numeral_iff power_int_increasing less_imp_le
        semiring_norm(76) zless_add1_eq)
  have "\<bar>(of_int n :: rat)\<bar> < 2 powi 53"
    using assms by (metis of_int_abs of_int_less_iff of_int_numeral of_int_power
        power_int_numeral numeral_powr_numeral_real power_int_of_nat int_ops(3) of_nat_numeral)
  with b(1) have "(2::rat) powi L < 2 powi 53"
    by simp
  then have L52: "L \<le> 52"
    by (metis linorder_not_less one_less_numeral_iff power_int_increasing less_imp_le
        semiring_norm(76) zle_add1_eq_le zless_add1_eq add.commute add_le_cancel_left
        less_le_not_le numeral_Bit0 numeral_Bit1 one_add_one)
  define k where "k = nat (52 - L)"
  have e: "max (L - 52) (- 1074) = - int k"
    using L0 L52 by (simp add: k_def)
  have t: "\<bar>of_int n\<bar> / (2::rat) powi (- int k) = of_int (\<bar>n\<bar> * 2 ^ k)"
    by (simp add: power_int_minus field_simps)
  have "fl (of_int n) = sgn (of_int n) * of_int (\<bar>n\<bar> * 2 ^ k) * 2 powi (- int k)"
    using False unfolding fl_def Let_def L_def [symmetric] e t roundEven_of_int by simp
  also have "\<dots> = sgn (of_int n) * \<bar>of_int n\<bar>"
    by (simp add: power_int_minus field_simps)
  also have "\<dots> = of_int n"
    by (simp add: sgn_if)
  finally show ?thesis .
qed


lemma roundEven_nearest:
  assumes "\<bar>of_int n - t\<bar> < 1 / 2"
  shows "roundEven t = n"
proof (cases "of_int n \<le> t")
  case True
  with assms have "\<lfloor>t\<rfloor> = n"
    by (intro floor_unique) (simp_all add: abs_if split: if_splits)
  with assms True show ?thesis
    by (simp add: roundEven_def abs_if split: if_splits)
next
  case False
  with assms have f: "\<lfloor>t\<rfloor> = n - 1"
    by (intro floor_unique) (simp_all add: abs_if split: if_splits)
  have "1 / 2 < t - of_int (n - 1)"
    using assms False by (simp add: abs_if split: if_splits)
  then show ?thesis
    unfolding roundEven_def f by simp
qed

lemma fl_value:
  assumes "2 powi L \<le> \<bar>x\<bar>" and "\<bar>x\<bar> < 2 powi (L + 1)" and "- 1022 \<le> L"
    and "\<bar>of_int n - \<bar>x\<bar> / 2 powi (L - 52)\<bar> < 1 / 2"
  shows "fl x = sgn x * of_int n * 2 powi (L - 52)"
  using fl_eval [OF assms(1-3)] roundEven_nearest [OF assms(4)] by simp

lemma fl_tenths:
  "fl (3 / 10) = 5404319552844595 / 2 ^ 54"
  "fl (4 / 10) = 3602879701896397 / 2 ^ 53"
  "fl (2 / 10) = 3602879701896397 / 2 ^ 54"
  "fl (1 / 10) = 3602879701896397 / 2 ^ 55"
proof -
  show "fl (3 / 10) = 5404319552844595 / 2 ^ 54"
    by (subst fl_value [of "- 2" _ 5404319552844595]) (simp_all add: power_int_minus)
  show "fl (4 / 10) = 3602879701896397 / 2 ^ 53"
    by (subst fl_value [of "- 2" _ 7205759403792794]) (simp_all add: power_int_minus)
  show "fl (2 / 10) = 3602879701896397 / 2 ^ 54"
    by (subst fl_value [of "- 3" _ 7205759403792794]) (simp_all add: power_int_minus)
  show "fl (1 / 10) = 3602879701896397 / 2 ^ 55"
    by (subst fl_value [of "- 4" _ 7205759403792794]) (simp_all add: power_int_minus)
qed


(*SCRATCHCUT*)
section \<open>The budget of the fallback plan\<close>

lemma kyotoTrip_products:
  "fl (50005 * fl (3 / 10)) = 30003 / 2"
  "fl (50005 * fl (4 / 10)) = 20002"
  "fl (50005 * fl (2 / 10)) = 10001"
  "fl (50005 * fl (1 / 10)) = 10001 / 2"
proof -
  show "fl (50005 * fl (3 / 10)) = 30003 / 2"
    unfolding fl_tenths
    by (subst fl_value [of 13 _ 8247161842040832]) (simp_all add: power_int_minus)
  show "fl (50005 * fl (4 / 10)) = 20002"
    unfolding fl_tenths
    by (subst fl_value [of 14 _ 5498107894693888]) (simp_all add: power_int_minus)
  show "fl (50005 * fl (2 / 10)) = 10001"
    unfolding fl_tenths
    by (subst fl_value [of 13 _ 5498107894693888]) (simp_all add: power_int_minus)
  show "fl (50005 * fl (1 / 10)) = 10001 / 2"
    unfolding fl_tenths
    by (subst fl_value [of 12 _ 5498107894693888]) (simp_all add: power_int_minus)
qed

lemma kyotoTrip_budget:
  "plan_budget (generateMockPlan kyotoTrip)
     = \<lparr> transportation = 15002, accommodation = 20002, food = 10001, activities = 5001 \<rparr>"
proof -
  have s: "plan_budget (generateMockPlan kyotoTrip)
     = \<lparr> transportation = Math_round (fl (50005 * fl (3 / 10))),
         accommodation = Math_round (fl (50005 * fl (4 / 10))),
         food = Math_round (fl (50005 * fl (2 / 10))),
         activities = Math_round (fl (50005 * fl (1 / 10))) \<rparr>"
    by (simp add: generateMockPlan_def kyotoTrip_def)
  have "Math_round (30003 / 2) = 15002" "Math_round 20002 = 20002"
    "Math_round 10001 = 10001" "Math_round (10001 / 2) = 5001"
    unfolding Math_round_def by (rule floor_unique; simp)+
  then show ?thesis
    unfolding s kyotoTrip_products by simp
qed

text \<open>
  Claim C3, as stated, fails: for the trip to Kyoto with a budget of 50005 the products
  are 15001.5, 20002, 10001 and 5000.5 as doubles, \<open>Math.round\<close> rounds both halves up,
  and the shares 15002, 20002, 10001 and 5001 add up to 50006.
\<close>

theorem C3_total_exceeds_budget:
  "plan_budget (generateMockPlan kyotoTrip)
       = \<lparr> transportation = 15002, accommodation = 20002, food = 10001, activities = 5001 \<rparr>
   \<and> budget kyotoTrip = 50005
   \<and> \<not> of_int (budgetTotal (generateMockPlan kyotoTrip)) \<le> budget kyotoTrip"
  unfolding budgetTotal_def kyotoTrip_budget by (simp add: kyotoTrip_def)

text \<open>The error of one share against the exact fraction of the budget.\<close>

lemma Math_round_error: "\<bar>of_int (Math_round x) - x\<bar> \<le> 1 / 2"
  unfolding Math_round_def by linarith

lemma product_error:
  assumes "0 \<le> c" and "c \<le> 1 / 2" and "\<bar>c - q\<bar> \<le> 1 / 2 ^ 54"
  shows "\<bar>fl (b * c) - b * q\<bar> \<le> \<bar>b\<bar> / 2 ^ 53 + 1 / 2 ^ 1075"
proof -
  have "\<bar>b * c\<bar> = \<bar>b\<bar> * c"
    using assms(1) by (simp add: abs_mult)
  also have "\<dots> \<le> \<bar>b\<bar> * (1 / 2)"
    using assms(2) by (intro mult_left_mono) simp_all
  finally have 1: "\<bar>b * c\<bar> / 2 ^ 53 \<le> \<bar>b\<bar> / 2 ^ 54"
    by (simp add: field_simps)
  have "\<bar>b * c - b * q\<bar> = \<bar>b\<bar> * \<bar>c - q\<bar>"
    by (simp add: abs_mult flip: right_diff_distrib)
  also have "\<dots> \<le> \<bar>b\<bar> * (1 / 2 ^ 54)"
    using assms(3) by (intro mult_left_mono) simp_all
  finally have 2: "\<bar>b * c - b * q\<bar> \<le> \<bar>b\<bar> / 2 ^ 54"
    by simp
  have 3: "\<bar>fl (b * c) - b * c\<bar> \<le> \<bar>b * c\<bar> / 2 ^ 53 + 1 / 2 ^ 1075"
    by (rule fl_error)
  have "\<bar>b\<bar> / 2 ^ 54 + \<bar>b\<bar> / 2 ^ 54 = \<bar>b\<bar> / 2 ^ 53"
    by simp
  with 1 2 3 show ?thesis
    by linarith
qed

lemma share_error:
  assumes "0 \<le> c" and "c \<le> 1 / 2" and "\<bar>c - q\<bar> \<le> 1 / 2 ^ 54"
  shows "\<bar>of_int (Math_round (fl (b * c))) - b * q\<bar> \<le> 1 / 2 + \<bar>b\<bar> / 2 ^ 53 + 1 / 2 ^ 1075"
  using product_error [OF assms, of b] Math_round_error [of "fl (b * c)"] by linarith

lemma small_share:
  assumes "0 \<le> c" and "c \<le> 41 / 100" and "\<bar>b\<bar> < 1"
  shows "Math_round (fl (b * c)) = 0"
proof -
  have "\<bar>b * c\<bar> = \<bar>b\<bar> * c"
    using assms(1) by (simp add: abs_mult)
  also have "\<dots> \<le> 1 * c"
    using assms(1,3) by (intro mult_right_mono) simp_all
  finally have 1: "\<bar>b * c\<bar> \<le> 41 / 100"
    using assms(2) by simp
  have "\<bar>fl (b * c) - b * c\<bar> \<le> \<bar>b * c\<bar> / 2 ^ 53 + 1 / 2 ^ 1075"
    by (rule fl_error)
  moreover have "\<bar>b * c\<bar> / 2 ^ 53 \<le> 41 / 100 / 2 ^ 53"
    using 1 by (simp add: divide_right_mono)
  ultimately have "\<bar>fl (b * c) - b * c\<bar> \<le> 41 / 100 / 2 ^ 53 + 1 / 2 ^ 1075"
    by linarith
  moreover have "(41 / 100 / 2 ^ 53 + 1 / 2 ^ 1075 :: rat) < 1 / 100"
    by simp
  ultimately have "\<bar>fl (b * c)\<bar> < 1 / 2"
    using 1 by linarith
  then show ?thesis
    unfolding Math_round_def by (intro floor_unique) (simp_all add: abs_if split: if_splits)
qed

lemma tenths_close:
  "\<bar>fl (3 / 10) - 3 / 10\<bar> \<le> 1 / 2 ^ 54" "\<bar>fl (4 / 10) - 4 / 10\<bar> \<le> 1 / 2 ^ 54"
  "\<bar>fl (2 / 10) - 2 / 10\<bar> \<le> 1 / 2 ^ 54" "\<bar>fl (1 / 10) - 1 / 10\<bar> \<le> 1 / 2 ^ 54"
  "0 \<le> fl (3 / 10)" "0 \<le> fl (4 / 10)" "0 \<le> fl (2 / 10)" "0 \<le> fl (1 / 10)"
  "fl (3 / 10) \<le> 41 / 100" "fl (4 / 10) \<le> 41 / 100" "fl (2 / 10) \<le> 41 / 100"
  "fl (1 / 10) \<le> 41 / 100"
  unfolding fl_tenths by simp_all

lemma budget_total_error:
  "\<bar>of_int (budgetTotal (generateMockPlan td)) - budget td\<bar> \<le> 2 + \<bar>budget td\<bar> / 2 ^ 50"
proof (cases "\<bar>budget td\<bar> < 1")
  case True
  have "budgetTotal (generateMockPlan td) = 0"
    using small_share [OF tenths_close(5) tenths_close(9) True]
      small_share [OF tenths_close(6) tenths_close(10) True]
      small_share [OF tenths_close(7) tenths_close(11) True]
      small_share [OF tenths_close(8) tenths_close(12) True]
    by (simp add: budgetTotal_def generateMockPlan_def)
  with True show ?thesis
    by simp
next
  case False
  define b where "b = budget td"
  have h: "fl (3 / 10) \<le> 1 / 2" "fl (4 / 10) \<le> 1 / 2" "fl (2 / 10) \<le> 1 / 2" "fl (1 / 10) \<le> 1 / 2"
    using tenths_close(9-12) by linarith+
  note e3 = share_error [OF tenths_close(5) h(1) tenths_close(1), of b]
  note e4 = share_error [OF tenths_close(6) h(2) tenths_close(2), of b]
  note e2 = share_error [OF tenths_close(7) h(3) tenths_close(3), of b]
  note e1 = share_error [OF tenths_close(8) h(4) tenths_close(4), of b]
  have t: "of_int (budgetTotal (generateMockPlan td))
      = (of_int (Math_round (fl (b * fl (3 / 10)))) :: rat)
        + of_int (Math_round (fl (b * fl (4 / 10))))
        + of_int (Math_round (fl (b * fl (2 / 10))))
        + of_int (Math_round (fl (b * fl (1 / 10))))"
    by (simp add: budgetTotal_def generateMockPlan_def b_def)
  define E where "E = 1 / 2 + \<bar>b\<bar> / 2 ^ 53 + 1 / (2 ^ 1075 :: rat)"
  define s3 where "s3 = (of_int (Math_round (fl (b * fl (3 / 10)))) :: rat)"
  define s4 where "s4 = (of_int (Math_round (fl (b * fl (4 / 10)))) :: rat)"
  define s2 where "s2 = (of_int (Math_round (fl (b * fl (2 / 10)))) :: rat)"
  define s1 where "s1 = (of_int (Math_round (fl (b * fl (1 / 10)))) :: rat)"
  define y3 where "y3 = b * (3 / 10)"
  define y4 where "y4 = b * (4 / 10)"
  define y2 where "y2 = b * (2 / 10)"
  define y1 where "y1 = b * (1 / 10)"
  have "\<bar>s3 - y3\<bar> \<le> E" "\<bar>s4 - y4\<bar> \<le> E" "\<bar>s2 - y2\<bar> \<le> E" "\<bar>s1 - y1\<bar> \<le> E"
    using e3 e4 e2 e1 unfolding E_def s3_def s4_def s2_def s1_def y3_def y4_def y2_def y1_def
    by blast+
  moreover have "b = y3 + y4 + y2 + y1"
    unfolding y3_def y4_def y2_def y1_def by simp
  ultimately have "\<bar>s3 + s4 + s2 + s1 - b\<bar> \<le> 4 * E"
    by linarith
  then have "\<bar>of_int (budgetTotal (generateMockPlan td)) - b\<bar>
      \<le> 4 * (1 / 2 + \<bar>b\<bar> / 2 ^ 53 + 1 / 2 ^ 1075)"
    unfolding t E_def s3_def s4_def s2_def s1_def .
  then have 1: "\<bar>of_int (budgetTotal (generateMockPlan td)) - b\<bar> \<le> 2 + 4 * E'"
    if "E' = \<bar>b\<bar> / 2 ^ 53 + 1 / 2 ^ 1075" for E'
    using that by simp
  have "1 / 2 ^ 1075 \<le> \<bar>b\<bar> * (1 / 2 ^ 1075)"
    using False by (simp add: b_def)
  then have "\<bar>b\<bar> / 2 ^ 53 + 1 / 2 ^ 1075 \<le> \<bar>b\<bar> * (1 / 2 ^ 53 + 1 / 2 ^ 1075)"
    by (simp add: algebra_simps)
  also have "\<dots> \<le> \<bar>b\<bar> * (1 / 2 ^ 52)"
    by (intro mult_left_mono) simp_all
  finally have 2: "4 * (\<bar>b\<bar> / 2 ^ 53 + 1 / 2 ^ 1075) \<le> \<bar>b\<bar> / 2 ^ 50"
    by simp
  from 1 [OF refl] 2 show ?thesis
    unfolding b_def by (rule order_trans [OF _ add_left_mono])
qed

text \<open>
  Claim C3, amended: each share is \<open>Math.round\<close> of the double-precision product of the
  budget with 0.3, 0.4, 0.2 and 0.1, and the total of the four shares differs from the
  budget, in either direction, by at most 2 (from \<open>Math.round\<close>) plus the budget's
  magnitude divided by \<open>2^50\<close> (from the rounding of the products).
\<close>

theorem C3_total_near_budget:
  "transportation (plan_budget (generateMockPlan td)) = Math_round (fl (budget td * fl (3 / 10)))
   \<and> accommodation (plan_budget (generateMockPlan td)) = Math_round (fl (budget td * fl (4 / 10)))
   \<and> food (plan_budget (generateMockPlan td)) = Math_round (fl (budget td * fl (2 / 10)))
   \<and> activities (plan_budget (generateMockPlan td)) = Math_round (fl (budget td * fl (1 / 10)))
   \<and> \<bar>of_int (budgetTotal (generateMockPlan td)) - budget td\<bar> \<le> 2 + \<bar>budget td\<bar> / 2 ^ 50"
proof (intro conjI)
  show "\<bar>of_int (budgetTotal (generateMockPlan td)) - budget td\<bar> \<le> 2 + \<bar>budget td\<bar> / 2 ^ 50"
    by (rule budget_total_error)
qed (simp_all add: generateMockPlan_def)

section \<open>The length of the trip\<close>

lemma parseIsoDate_valid: "parseIsoDate s = Some ymd \<Longrightarrow> validDate ymd"
  by (auto simp: parseIsoDate_def Let_def split: if_splits)

lemma DayFromYear_bounds:
  assumes "0 \<le> y" and "y \<le> 9999"
  shows "- 720000 \<le> DayFromYear y" and "DayFromYear y \<le> 2940000"
proof -
  have a: "(- 1969) div 4 \<le> (y - 1969) div 4" "(y - 1969) div 4 \<le> 8030 div (4::int)"
    using assms by (intro zdiv_mono1; simp)+
  have b: "(- 1901) div 100 \<le> (y - 1901) div 100" "(y - 1901) div 100 \<le> 8098 div (100::int)"
    using assms by (intro zdiv_mono1; simp)+
  have c: "(- 1601) div 400 \<le> (y - 1601) div 400" "(y - 1601) div 400 \<le> 8398 div (400::int)"
    using assms by (intro zdiv_mono1; simp)+
  show "- 720000 \<le> DayFromYear y" and "DayFromYear y \<le> 2940000"
    using a b c assms unfolding DayFromYear_def by simp_all
qed

lemma daysBeforeMonth_bounds:
  assumes "1 \<le> m" and "m \<le> 12"
  shows "0 \<le> daysBeforeMonth y m" and "daysBeforeMonth y m \<le> 335"
proof -
  from assms have "m \<in> set [1..12]"
    by simp
  then have "m = 1 \<or> m = 2 \<or> m = 3 \<or> m = 4 \<or> m = 5 \<or> m = 6 \<or> m = 7 \<or> m = 8 \<or> m = 9
      \<or> m = 10 \<or> m = 11 \<or> m = 12"
    by (simp add: upto.simps)
  then show "0 \<le> daysBeforeMonth y m" and "daysBeforeMonth y m \<le> 335"
    by (auto simp: daysBeforeMonth_def)
qed

lemma MakeDay_bounds:
  assumes "validDate (y, m, d)"
  shows "\<bar>MakeDay y m d\<bar> \<le> 3000000"
proof -
  from assms have v: "0 \<le> y" "y \<le> 9999" "1 \<le> m" "m \<le> 12" "1 \<le> d" "d \<le> daysInMonth y m"
    by (simp_all add: validDate_def)
  have "daysInMonth y m \<le> 31"
    by (simp add: daysInMonth_def)
  with v(6) have "d \<le> 31" by simp
  with v(5) DayFromYear_bounds [OF v(1,2)] daysBeforeMonth_bounds [OF v(3,4), of y]
  show ?thesis
    unfolding MakeDay_def by linarith
qed

lemma tripDays_whole_days:
  assumes "getTime start = Some (msPerDay * a)" and "getTime end = Some (msPerDay * b)"
    and "\<bar>a\<bar> \<le> 3000000" and "\<bar>b\<bar> \<le> 3000000"
  shows "tripDays getTime start end = Some (b - a + 1)"
proof -
  have k: "\<bar>b - a\<bar> \<le> 6000000"
    using assms(3,4) by linarith
  have "\<bar>msPerDay * (b - a)\<bar> = \<bar>msPerDay\<bar> * \<bar>b - a\<bar>"
    by (rule abs_mult)
  also have "\<dots> \<le> 86400000 * 6000000"
    using k by (simp add: msPerDay_def)
  finally have "\<bar>msPerDay * (b - a)\<bar> < 2 ^ 53"
    by simp
  then have 1: "fl (of_int (msPerDay * (b - a))) = of_int (msPerDay * (b - a))"
    by (rule fl_of_int)
  have 2: "(of_int (msPerDay * (b - a)) :: rat) / of_int msPerDay = of_int (b - a)"
    by (simp add: msPerDay_def)
  have "\<bar>b - a\<bar> < 2 ^ 53"
    using k by simp
  then have 3: "fl (of_int (b - a)) = of_int (b - a)"
    by (rule fl_of_int)
  have 4: "msPerDay * b - msPerDay * a = msPerDay * (b - a)"
    by (simp add: algebra_simps)
  have "tripDays getTime start end
      = Some (Math_ceil (fl (fl (of_int (msPerDay * (b - a))) / of_int msPerDay)) + 1)"
    by (simp only: tripDays_def assms(1,2) prod.case option.case 4)
  also have "\<dots> = Some (b - a + 1)"
    unfolding 1 2 3 Math_ceil_def by simp
  finally show ?thesis .
qed

text \<open>
  Claim C9: for a start and an end given as calendar dates in the date-only form
  \<open>YYYY-MM-DD\<close> (what the date inputs of the travel form send), read by the engine as
  ECMAScript prescribes, and with the end not before the start, the day count of the
  prompt is the number of calendar days from the start to the end, both included, and
  the night count is one less. For 2024-03-15 to 2024-03-17 this is 3 days and 2 nights.
\<close>

theorem C9_inclusive_day_count:
  assumes "parseIsoDate (startDate td) = Some (y1, m1, d1)"
    and "parseIsoDate (endDate td) = Some (y2, m2, d2)"
    and "getTime (startDate td) = dateOnlyTime (startDate td)"
    and "getTime (endDate td) = dateOnlyTime (endDate td)"
    and "MakeDay y1 m1 d1 \<le> MakeDay y2 m2 d2"
  shows "tp_days (createTravelPrompt getTime td)
           = Some (int (card {MakeDay y1 m1 d1 .. MakeDay y2 m2 d2}))
       \<and> tp_nights (createTravelPrompt getTime td)
           = Some (int (card {MakeDay y1 m1 d1 .. MakeDay y2 m2 d2}) - 1)"
proof -
  have s: "getTime (startDate td) = Some (msPerDay * MakeDay y1 m1 d1)"
    and e: "getTime (endDate td) = Some (msPerDay * MakeDay y2 m2 d2)"
    using assms(1-4) by (simp_all add: dateOnlyTime_def)
  have "tripDays getTime (startDate td) (endDate td)
      = Some (MakeDay y2 m2 d2 - MakeDay y1 m1 d1 + 1)"
    using s e
    by (rule tripDays_whole_days)
       (rule MakeDay_bounds, rule parseIsoDate_valid, rule assms)+
  moreover have "int (card {MakeDay y1 m1 d1 .. MakeDay y2 m2 d2})
      = MakeDay y2 m2 d2 - MakeDay y1 m1 d1 + 1"
    using assms(5) by simp
  ultimately show ?thesis
    by (simp add: createTravelPrompt_def tripNights_def)
qed

lemma parse_example_dates:
  "parseIsoDate (js ''2024-03-15'') = Some (2024, 3, 15)"
  "parseIsoDate (js ''2024-03-17'') = Some (2024, 3, 17)"
  by (simp_all add: parseIsoDate_def js_def isDigit_def validDate_def daysInMonth_def
      isLeapYear_def)

lemma MakeDay_example_dates: "MakeDay 2024 3 15 = 19797" "MakeDay 2024 3 17 = 19799"
  by (simp_all add: MakeDay_def DayFromYear_def daysBeforeMonth_def isLeapYear_def)

theorem C9_inclusive_day_count_witness:
  "startDate kyotoTrip = js ''2024-03-15'' \<and> endDate kyotoTrip = js ''2024-03-17''
   \<and> MakeDay 2024 3 15 \<le> MakeDay 2024 3 17
   \<and> tp_days (createTravelPrompt dateOnlyTime kyotoTrip) = Some 3
   \<and> tp_nights (createTravelPrompt dateOnlyTime kyotoTrip) = Some 2"
proof -
  have d: "startDate kyotoTrip = js ''2024-03-15''" "endDate kyotoTrip = js ''2024-03-17''"
    by (simp_all add: kyotoTrip_def)
  have c: "{19797 .. 19799 :: int} = {19797, 19798, 19799}"
    by auto
  from C9_inclusive_day_count [of kyotoTrip 2024 3 15 2024 3 17 dateOnlyTime]
  show ?thesis
    unfolding d MakeDay_example_dates c using parse_example_dates by simp
qed

section \<open>Plan generation: success, failure and the missing key\<close>

lemma extract_fencedEmptyObject: "extractJson objectRe fencedEmptyObject = js ''{}''"
  by (simp add: string_defs regex_defs example_defs)

lemma extract_plain: "extractJson objectRe (js ''Sorry, no plan.'') = js ''Sorry, no plan.''"
  by (simp add: string_defs regex_defs)

lemma extract_plain_array: "extractJson arrayRe (js ''Sorry, no list.'') = js ''Sorry, no list.''"
  by (simp add: string_defs regex_defs)

lemma extract_object_as_array: "extractJson arrayRe (js ''{}'') = js ''{}''"
  by (simp add: string_defs regex_defs)

lemma getGenAIClient_no_key:
  "GEMINI_API_KEY rt = None \<or> GEMINI_API_KEY rt = Some [] \<Longrightarrow>
   getGenAIClient rt None = (Inl (ErrorObj (js ''GEMINI_API_KEY is not defined'')), None)"
  by (auto simp: getGenAIClient_def)

lemma getGenAIClient_testKey:
  "getGenAIClient (exampleRuntime (Some testKey) reply) None
     = (Inr (GoogleGenerativeAI testKey), Some (GoogleGenerativeAI testKey))"
  by (simp add: getGenAIClient_def exampleRuntime_def testKey_def js_def)

lemma generateContent_example:
  "generateContent (exampleRuntime key reply) c m p = reply"
  by (simp add: exampleRuntime_def)

text \<open>
  Claim C2, as stated, fails: with no API key in the environment and no client built
  yet, plan generation does not abort. The error of \<open>getGenAIClient\<close> is raised inside the
  \<open>try\<close> of \<open>generateTravelPlan\<close>, so the caller receives \<open>success: false\<close> and the mock
  plan.
\<close>

theorem C2_missing_key_gives_mock_plan:
  "GEMINI_API_KEY (exampleRuntime None (Inr fencedEmptyObject)) = None
   \<and> success (fst (generateTravelPlan (exampleRuntime None (Inr fencedEmptyObject)) None kyotoTrip))
       = False
   \<and> data (fst (generateTravelPlan (exampleRuntime None (Inr fencedEmptyObject)) None kyotoTrip))
       = Mock (generateMockPlan kyotoTrip)"
  by (simp add: generateTravelPlan_def getGenAIClient_def exampleRuntime_def planFallback_def)

text \<open>
  Claim C2, amended: when the API key is absent (undefined or empty) at first use, the
  error of the client construction is caught by plan generation like every other one:
  the call returns \<open>success: false\<close>, the plan of the fallback generator and the message
  \<open>GEMINI_API_KEY is not defined\<close>; no client is stored.
\<close>

theorem C2_missing_key_is_caught:
  assumes "GEMINI_API_KEY rt = None \<or> GEMINI_API_KEY rt = Some []"
  shows "generateTravelPlan rt None td =
           (\<lparr> success = False,
              data = Mock (generateMockPlan td),
              error = Some (js ''GEMINI_API_KEY is not defined'') \<rparr>, None)"
  using getGenAIClient_no_key [OF assms]
  by (simp add: generateTravelPlan_def planFallback_def errorMessage_def)

theorem C2_missing_key_is_caught_witness:
  "GEMINI_API_KEY (exampleRuntime (Some []) (Inr fencedEmptyObject)) = Some []
   \<and> generateTravelPlan (exampleRuntime (Some []) (Inr fencedEmptyObject)) None kyotoTrip =
           (\<lparr> success = False,
              data = Mock (generateMockPlan kyotoTrip),
              error = Some (js ''GEMINI_API_KEY is not defined'') \<rparr>, None)"
  using C2_missing_key_is_caught [of "exampleRuntime (Some []) (Inr fencedEmptyObject)" kyotoTrip]
  by (simp add: exampleRuntime_def)

text \<open>
  Claim C5: when the client is available and the model call throws, or \<open>JSON.parse\<close>
  throws on the extracted text, the payload has \<open>success: false\<close>, the plan of the
  fallback generator for the same preferences, and a non-empty error string: the message
  of the thrown \<open>Error\<close>, or the fixed text when the thrown value is not an \<open>Error\<close>. The
  thrown \<open>Error\<close> is taken to carry a message, as the errors of the client library, of
  the transport and of \<open>JSON.parse\<close> do.
\<close>

theorem C5_failure_gives_fallback:
  assumes "getGenAIClient rt genAI = (Inr c, genAI')"
    and "generateContent rt c modelName (TravelPrompt (createTravelPrompt (Date_getTime rt) td))
           = Inl e
         \<or> (\<exists>reply. generateContent rt c modelName
                        (TravelPrompt (createTravelPrompt (Date_getTime rt) td)) = Inr reply
                    \<and> JSON_parse rt (extractJson objectRe reply) = Inl e)"
    and "e \<noteq> ErrorObj []"
  shows "generateTravelPlan rt genAI td =
           (\<lparr> success = False,
              data = Mock (generateMockPlan td),
              error = Some (errorMessage e planFailedMsg) \<rparr>, genAI')
         \<and> errorMessage e planFailedMsg \<noteq> []"
proof -
  have "errorMessage e planFailedMsg \<noteq> []"
    using assms(3) by (cases e) (simp_all add: errorMessage_def planFailedMsg_def)
  moreover have "generateTravelPlan rt genAI td =
           (\<lparr> success = False,
              data = Mock (generateMockPlan td),
              error = Some (errorMessage e planFailedMsg) \<rparr>, genAI')"
    using assms(1,2) by (auto simp: generateTravelPlan_def planFallback_def)
  ultimately show ?thesis
    by simp
qed

theorem C5_failure_gives_fallback_witness:
  "generateTravelPlan (exampleRuntime (Some testKey) (Inl (ErrorObj (js ''fetch failed'')))) None kyotoTrip =
           (\<lparr> success = False,
              data = Mock (generateMockPlan kyotoTrip),
              error = Some (js ''fetch failed'') \<rparr>, Some (GoogleGenerativeAI testKey))
   \<and> js ''fetch failed'' \<noteq> []
   \<and> generateTravelPlan (exampleRuntime (Some testKey) (Inl NonError)) None kyotoTrip =
           (\<lparr> success = False,
              data = Mock (generateMockPlan kyotoTrip),
              error = Some planFailedMsg \<rparr>, Some (GoogleGenerativeAI testKey))
   \<and> planFailedMsg \<noteq> []
   \<and> generateTravelPlan (exampleRuntime (Some testKey) (Inr (js ''Sorry, no plan.''))) None kyotoTrip =
           (\<lparr> success = False,
              data = Mock (generateMockPlan kyotoTrip),
              error = Some (js ''Unexpected token'') \<rparr>, Some (GoogleGenerativeAI testKey))"
proof -
  have p: "JSON_parse (exampleRuntime (Some testKey) (Inr (js ''Sorry, no plan.'')))
        (extractJson objectRe (js ''Sorry, no plan.'')) = Inl (ErrorObj (js ''Unexpected token''))"
    unfolding extract_plain
    by (simp add: exampleRuntime_def exampleParse_def js_def exampleRecsText_def)
  have n: "ErrorObj (js ''fetch failed'') \<noteq> ErrorObj []" "NonError \<noteq> ErrorObj []"
    "ErrorObj (js ''Unexpected token'') \<noteq> ErrorObj []"
    by (simp_all add: js_def)
  have d: "Date_getTime (exampleRuntime key reply) = dateOnlyTime" for key reply
    by (simp add: exampleRuntime_def)
  show ?thesis
    using C5_failure_gives_fallback [OF getGenAIClient_testKey _ n(1),
        of "Inl (ErrorObj (js ''fetch failed''))" kyotoTrip]
      C5_failure_gives_fallback [OF getGenAIClient_testKey _ n(2), of "Inl NonError" kyotoTrip]
      C5_failure_gives_fallback [OF getGenAIClient_testKey _ n(3),
        of "Inr (js ''Sorry, no plan.'')" kyotoTrip]
      generateContent_example p
    by (simp add: errorMessage_def d)
qed

text \<open>
  Claim C8: whenever \<open>JSON.parse\<close> succeeds on the extracted text, plan generation returns
  \<open>success: true\<close> with the parsed value itself as the plan, whatever its shape, and no
  error field.
\<close>

theorem C8_parsed_value_is_returned:
  assumes "getGenAIClient rt genAI = (Inr c, genAI')"
    and "generateContent rt c modelName (TravelPrompt (createTravelPrompt (Date_getTime rt) td)) = Inr text"
    and "JSON_parse rt (extractJson objectRe text) = Inr v"
  shows "generateTravelPlan rt genAI td =
           (\<lparr> success = True, data = Parsed v, error = None \<rparr>, genAI')"
  using assms by (simp add: generateTravelPlan_def)

theorem C8_parsed_value_is_returned_witness:
  "getGenAIClient (exampleRuntime (Some testKey) (Inr fencedEmptyObject)) None
     = (Inr (GoogleGenerativeAI testKey), Some (GoogleGenerativeAI testKey))
   \<and> generateContent (exampleRuntime (Some testKey) (Inr fencedEmptyObject))
         (GoogleGenerativeAI testKey) modelName (TravelPrompt (createTravelPrompt dateOnlyTime kyotoTrip))
       = Inr fencedEmptyObject
   \<and> JSON_parse (exampleRuntime (Some testKey) (Inr fencedEmptyObject))
         (extractJson objectRe fencedEmptyObject) = Inr (JObj [])
   \<and> generateTravelPlan (exampleRuntime (Some testKey) (Inr fencedEmptyObject)) None kyotoTrip =
         (\<lparr> success = True, data = Parsed (JObj []), error = None \<rparr>,
          Some (GoogleGenerativeAI testKey))"
proof -
  have 1: "getGenAIClient (exampleRuntime (Some testKey) (Inr fencedEmptyObject)) None
     = (Inr (GoogleGenerativeAI testKey), Some (GoogleGenerativeAI testKey))"
    by (rule getGenAIClient_testKey)
  have 2: "generateContent (exampleRuntime (Some testKey) (Inr fencedEmptyObject))
         (GoogleGenerativeAI testKey) modelName
         (TravelPrompt (createTravelPrompt
            (Date_getTime (exampleRuntime (Some testKey) (Inr fencedEmptyObject))) kyotoTrip))
       = Inr fencedEmptyObject"
    by (rule generateContent_example)
  have 3: "JSON_parse (exampleRuntime (Some testKey) (Inr fencedEmptyObject))
         (extractJson objectRe fencedEmptyObject) = Inr (JObj [])"
    by (simp add: extract_fencedEmptyObject exampleRuntime_def exampleParse_def)
  from C8_parsed_value_is_returned [OF 1 2 3] 1 3 show ?thesis
    by (simp add: generateContent_example)
qed

section \<open>Recommendation generation: failures\<close>

text \<open>
  Claim C6: when a stage of recommendation generation fails (the model call, the parse
  of the extracted text, or the test that the parsed value is an array), the payload has
  \<open>success: false\<close>, an empty list of recommendations and an error message.
\<close>

theorem C6_failure_gives_empty_list:
  assumes "recStageFails rt genAI prefs"
  shows "r_success (fst (generateRecommendations rt genAI prefs)) = False
       \<and> recommendations (fst (generateRecommendations rt genAI prefs)) = []
       \<and> r_error (fst (generateRecommendations rt genAI prefs)) \<noteq> None"
  using assms
  by (auto simp: recStageFails_def generateRecommendations_def parseArray_def recFailed_def
      split: prod.splits sum.splits json.splits)

theorem C6_failure_gives_empty_list_witness:
  "recStageFails (exampleRuntime (Some testKey) (Inl (ErrorObj (js ''fetch failed'')))) None kyotoPrefs
   \<and> generateRecommendations (exampleRuntime (Some testKey) (Inl (ErrorObj (js ''fetch failed'')))) None kyotoPrefs
       = (\<lparr> r_success = False, recommendations = [], r_error = Some (js ''fetch failed'') \<rparr>,
          Some (GoogleGenerativeAI testKey))
   \<and> recStageFails (exampleRuntime (Some testKey) (Inr (js ''Sorry, no list.''))) None kyotoPrefs
   \<and> generateRecommendations (exampleRuntime (Some testKey) (Inr (js ''Sorry, no list.''))) None kyotoPrefs
       = (\<lparr> r_success = False, recommendations = [], r_error = Some invalidListMsg \<rparr>,
          Some (GoogleGenerativeAI testKey))
   \<and> recStageFails (exampleRuntime (Some testKey) (Inr (js ''{}''))) None kyotoPrefs
   \<and> generateRecommendations (exampleRuntime (Some testKey) (Inr (js ''{}''))) None kyotoPrefs
       = (\<lparr> r_success = False, recommendations = [], r_error = Some invalidListMsg \<rparr>,
          Some (GoogleGenerativeAI testKey))"
proof -
  note a = generateContent_example
  have p1: "JSON_parse (exampleRuntime (Some testKey) reply) (js ''Sorry, no list.'')
      = Inl (ErrorObj (js ''Unexpected token''))" for reply
    by (simp add: exampleRuntime_def exampleParse_def js_def exampleRecsText_def)
  have p2: "JSON_parse (exampleRuntime (Some testKey) reply) (js ''{}'') = Inr (JObj [])" for reply
    by (simp add: exampleRuntime_def exampleParse_def)
  have f1: "recStageFails (exampleRuntime (Some testKey) (Inl (ErrorObj (js ''fetch failed'')))) None kyotoPrefs"
    by (simp add: recStageFails_def getGenAIClient_testKey a)
  have f2: "recStageFails (exampleRuntime (Some testKey) (Inr (js ''Sorry, no list.''))) None kyotoPrefs"
    by (simp add: recStageFails_def getGenAIClient_testKey a extract_plain_array p1)
  have f3: "recStageFails (exampleRuntime (Some testKey) (Inr (js ''{}''))) None kyotoPrefs"
    by (simp add: recStageFails_def getGenAIClient_testKey a extract_object_as_array p2)
  have g1: "generateRecommendations (exampleRuntime (Some testKey) (Inl (ErrorObj (js ''fetch failed'')))) None kyotoPrefs
       = (\<lparr> r_success = False, recommendations = [], r_error = Some (js ''fetch failed'') \<rparr>,
          Some (GoogleGenerativeAI testKey))"
    by (simp add: generateRecommendations_def getGenAIClient_testKey a recFailed_def errorMessage_def)
  have g2: "generateRecommendations (exampleRuntime (Some testKey) (Inr (js ''Sorry, no list.''))) None kyotoPrefs
       = (\<lparr> r_success = False, recommendations = [], r_error = Some invalidListMsg \<rparr>,
          Some (GoogleGenerativeAI testKey))"
    by (simp add: generateRecommendations_def getGenAIClient_testKey a extract_plain_array p1
        parseArray_def recFailed_def errorMessage_def)
  have g3: "generateRecommendations (exampleRuntime (Some testKey) (Inr (js ''{}''))) None kyotoPrefs
       = (\<lparr> r_success = False, recommendations = [], r_error = Some invalidListMsg \<rparr>,
          Some (GoogleGenerativeAI testKey))"
    by (simp add: generateRecommendations_def getGenAIClient_testKey a extract_object_as_array p2
        parseArray_def recFailed_def errorMessage_def)
  from C6_failure_gives_empty_list [OF f1] C6_failure_gives_empty_list [OF f2]
    C6_failure_gives_empty_list [OF f3] f1 f2 f3 g1 g2 g3
  show ?thesis by simp
qed

end
